theory Spec2Isabelle
  imports Main
begin

section \<open>The notebooks' own code, with the services they call as parameters\<close>

text \<open>
  The notebooks of the repository call a text splitter, an embedding service and query
  engines of third-party libraries. None of these is code of the repository, so each one
  is a parameter of the model: a function that takes the state of the outside world
  \<open>'w\<close> (the service, the network, the library's own objects) and returns either the
  exception it raised or its result, together with the world afterwards. The definitions
  assume nothing about them: two calls with the same argument may answer differently.
  What a property needs from a service is a hypothesis of its theorem.
\<close>

datatype error =
    IndexError
  | ServiceError string

type_synonym ('a, 'w) call = "'w \<Rightarrow> (error + 'a) \<times> 'w"

subsection \<open>Evaluation notebook: the answer functions\<close>

text \<open>
  \<^verbatim>\<open>
  def answer_fn(question: str, query_engine: BaseQueryEngine) -> str:
      answer = query_engine.query(question)
      return str(answer)

  def base_answer_fn(question: str, history=None) -> str:
      return answer_fn(question, base_query_engine)

  def flare_answer_fn(question: str, history=None) -> str:
      return answer_fn(question, flare_query_engine)
  \<close>
  A query engine is its \<open>query\<close> method. The two engines and the library's \<open>str\<close> of a
  response are the notebook's globals, collected in a record.
\<close>

type_synonym ('r, 'w) query_engine = "string \<Rightarrow> ('r, 'w) call"

record ('r, 'w) eval_globals =
  base_query_engine :: "('r, 'w) query_engine"
  flare_query_engine :: "('r, 'w) query_engine"
  str_response :: "'r \<Rightarrow> string"

definition answer_fn ::
  "('r \<Rightarrow> string) \<Rightarrow> string \<Rightarrow> ('r, 'w) query_engine \<Rightarrow> (string, 'w) call" where
  "answer_fn str question query_engine w =
     (case query_engine question w of
        (Inl e, w') \<Rightarrow> (Inl e, w')
      | (Inr answer, w') \<Rightarrow> (Inr (str answer), w'))"

text \<open>The optional argument \<open>history\<close> is \<open>None\<close> when the caller leaves it out.\<close>

definition base_answer_fn ::
  "('r, 'w) eval_globals \<Rightarrow> string \<Rightarrow> 'h option \<Rightarrow> (string, 'w) call" where
  "base_answer_fn g question history =
     answer_fn (str_response g) question (base_query_engine g)"

definition flare_answer_fn ::
  "('r, 'w) eval_globals \<Rightarrow> string \<Rightarrow> 'h option \<Rightarrow> (string, 'w) call" where
  "flare_answer_fn g question history =
     answer_fn (str_response g) question (flare_query_engine g)"

subsection \<open>Baseline notebook: building \<open>document_data\<close>\<close>

text \<open>
  \<^verbatim>\<open>
  documents = SimpleDirectoryReader('./data/docs').load_data()
  text_splitter = SentenceSplitter(chunk_size=512, chunk_overlap=20)

  document_data = []

  for document in documents:
      chunks = text_splitter.split_text(document.text)
      for idx, chunk in enumerate(chunks):
          embedding = openai_client.embeddings.create(
              input=chunk, model="text-embedding-3-small")
          document_data.append({
              "id": f"{document.id_}-{idx}",
              "text": chunk,
              "metadata": document.metadata,
              "embedding": embedding.data[0].embedding
          })
  \<close>
  A document has the three attributes the loop reads; an element of \<open>document_data\<close> is
  the dictionary with the four keys the loop writes. The type of the metadata \<open>'m\<close> and of
  an embedding \<open>'e\<close> are left open. The fields carry a prefix because \<open>id\<close> and \<open>text\<close>
  are taken in Isabelle.
\<close>

record 'm document =
  doc_id :: string
  doc_text :: string
  doc_metadata :: 'm

record ('m, 'e) entry =
  entry_id :: string
  entry_text :: string
  entry_metadata :: 'm
  entry_embedding :: 'e

text \<open>
  The splitter object, already constructed, is its method \<open>split_text\<close>. The embedding
  call takes the input and the model name and answers with the list \<open>data\<close>, of which
  the model keeps each element's \<open>embedding\<close>.
\<close>

record ('e, 'w) ingest_globals =
  split_text :: "string \<Rightarrow> (string list, 'w) call"
  embeddings_create :: "string \<Rightarrow> string \<Rightarrow> ('e list, 'w) call"

text \<open>Python's \<open>str\<close> of a non-negative integer, as the f-string formats \<open>idx\<close>.\<close>

definition digit_char :: "nat \<Rightarrow> char" where
  "digit_char d = char_of (48 + d)"

fun str_nat :: "nat \<Rightarrow> string" where
  "str_nat n =
     (if n < 10 then [digit_char n]
      else str_nat (n div 10) @ [digit_char (n mod 10)])"

declare str_nat.simps [simp del]

text \<open>
  The inner loop over \<open>enumerate(chunks)\<close>, from index \<open>idx\<close> on. The list
  \<open>document_data\<close> is mutated in place, so an exception leaves the elements appended so
  far: the result is the exception raised, if any, the list and the world. \<open>data[0]\<close>
  raises \<open>IndexError\<close> on an empty list, before anything is appended.
\<close>

fun append_chunks ::
  "('e, 'w) ingest_globals \<Rightarrow> 'm document \<Rightarrow> nat \<Rightarrow> string list \<Rightarrow>
   ('m, 'e) entry list \<Rightarrow> 'w \<Rightarrow> error option \<times> ('m, 'e) entry list \<times> 'w" where
  "append_chunks g document idx [] document_data w = (None, document_data, w)"
| "append_chunks g document idx (chunk # chunks) document_data w =
     (case embeddings_create g chunk ''text-embedding-3-small'' w of
        (Inl e, w') \<Rightarrow> (Some e, document_data, w')
      | (Inr response_data, w') \<Rightarrow>
          (case response_data of
             [] \<Rightarrow> (Some IndexError, document_data, w')
           | embedding # _ \<Rightarrow>
               append_chunks g document (Suc idx) chunks
                 (document_data @
                  [\<lparr>entry_id = doc_id document @ ''-'' @ str_nat idx,
                    entry_text = chunk,
                    entry_metadata = doc_metadata document,
                    entry_embedding = embedding\<rparr>]) w'))"

text \<open>The body of the outer loop: one document.\<close>

definition process_document ::
  "('e, 'w) ingest_globals \<Rightarrow> 'm document \<Rightarrow> ('m, 'e) entry list \<Rightarrow> 'w \<Rightarrow>
   error option \<times> ('m, 'e) entry list \<times> 'w" where
  "process_document g document document_data w =
     (case split_text g (doc_text document) w of
        (Inl e, w') \<Rightarrow> (Some e, document_data, w')
      | (Inr chunks, w') \<Rightarrow> append_chunks g document 0 chunks document_data w')"

fun process_documents ::
  "('e, 'w) ingest_globals \<Rightarrow> 'm document list \<Rightarrow> ('m, 'e) entry list \<Rightarrow> 'w \<Rightarrow>
   error option \<times> ('m, 'e) entry list \<times> 'w" where
  "process_documents g [] document_data w = (None, document_data, w)"
| "process_documents g (document # documents) document_data w =
     (case process_document g document document_data w of
        (Some e, document_data', w') \<Rightarrow> (Some e, document_data', w')
      | (None, document_data', w') \<Rightarrow> process_documents g documents document_data' w')"

text \<open>The cell: \<open>document_data\<close> starts empty.\<close>

definition build_document_data ::
  "('e, 'w) ingest_globals \<Rightarrow> 'm document list \<Rightarrow> 'w \<Rightarrow>
   error option \<times> ('m, 'e) entry list \<times> 'w" where
  "build_document_data g documents w = process_documents g documents [] w"

subsection \<open>Vocabulary of the statements\<close>


text \<open>
  The ids, texts and metadata expected for the chunks of one document, numbered from
  \<open>idx\<close> in the order of the list.
\<close>

definition chunk_keys ::
  "'m document \<Rightarrow> nat \<Rightarrow> string list \<Rightarrow> (string \<times> string \<times> 'm) list" where
  "chunk_keys d idx chunks =
     map (\<lambda>(i, chunk). (doc_id d @ ''-'' @ str_nat i, chunk, doc_metadata d))
       (enumerate idx chunks)"



text \<open>Reading a decimal numeral back, to show that the id determines the index.\<close>

definition digit_value :: "char \<Rightarrow> nat" where
  "digit_value c = of_char c - 48"

definition nat_of_str :: "string \<Rightarrow> nat" where
  "nat_of_str s = foldl (\<lambda>a c. 10 * a + digit_value c) 0 s"





section \<open>Properties\<close>

subsection \<open>The answer functions ignore the history\<close>

text \<open>
  Claim C10. For every question and any two values of the optional history argument,
  \<open>None\<close> included, \<open>base_answer_fn\<close> gives the same outcome (the answer or the
  exception, and the same effect on the outside world) when it is run from the same state
  of the world, and so does \<open>flare_answer_fn\<close>: the outcome is that of \<open>answer_fn\<close>
  on the question and the engine the function wraps.
\<close>

theorem answer_fns_ignore_history:
  "base_answer_fn g question h1 w = base_answer_fn g question h2 w
   \<and> flare_answer_fn g question h1 w = flare_answer_fn g question h2 w
   \<and> base_answer_fn g question h1 w = base_answer_fn g question None w
   \<and> flare_answer_fn g question h1 w = flare_answer_fn g question None w"
  by (simp add: base_answer_fn_def flare_answer_fn_def)

subsection \<open>The index in an id\<close>

lemma digit_value_digit_char: "d < 10 \<Longrightarrow> digit_value (digit_char d) = d"
  by (simp add: digit_value_def digit_char_def)

lemma nat_of_str_snoc: "nat_of_str (s @ [c]) = 10 * nat_of_str s + digit_value c"
  by (simp add: nat_of_str_def)

lemma nat_of_str_str_nat: "nat_of_str (str_nat n) = n"
proof (induction n rule: str_nat.induct)
  case (1 n)
  show ?case
  proof (cases "n < 10")
    case True
    then show ?thesis
      by (subst str_nat.simps) (simp add: nat_of_str_def digit_value_digit_char)
  next
    case False
    with 1 have "nat_of_str (str_nat (n div 10)) = n div 10" by simp
    with False show ?thesis
      by (subst str_nat.simps) (simp add: nat_of_str_snoc digit_value_digit_char)
  qed
qed

lemma str_nat_inj: "str_nat m = str_nat n \<Longrightarrow> m = n"
  by (metis nat_of_str_str_nat)

lemma entry_id_determines_index:
  "doc_id d @ ''-'' @ str_nat i = doc_id d @ ''-'' @ str_nat j \<Longrightarrow> i = j"
  by (simp add: str_nat_inj)

subsection \<open>The expected keys, element by element\<close>



lemma length_chunk_keys: "length (chunk_keys d idx chunks) = length chunks"
  by (simp add: chunk_keys_def)

lemma nth_chunk_keys:
  "i < length chunks \<Longrightarrow>
   chunk_keys d idx chunks ! i = (doc_id d @ ''-'' @ str_nat (idx + i), chunks ! i, doc_metadata d)"
  by (simp add: chunk_keys_def nth_enumerate_eq)

subsection \<open>What the loops have appended, in every run\<close>






subsection \<open>A run that raises nothing\<close>

text \<open>
  When the splitter and the embedding service always answer, and the service never with
  an empty list, the cell raises nothing.
\<close>

lemma append_chunks_completes:
  assumes em: "\<And>c m w. \<exists>e es w'. embeddings_create g c m w = (Inr (e # es), w')"
  shows "\<exists>dd' w'. append_chunks g d idx chunks dd w = (None, dd', w')"
proof (induction chunks arbitrary: idx dd w)
  case Nil
  then show ?case by simp
next
  case (Cons c cs)
  from em obtain e es w1 where
    "embeddings_create g c ''text-embedding-3-small'' w = (Inr (e # es), w1)" by blast
  then show ?case using Cons.IH by simp
qed

lemma build_document_data_completes:
  assumes sp: "\<And>t w. \<exists>chunks w'. split_text g t w = (Inr chunks, w')"
      and em: "\<And>c m w. \<exists>e es w'. embeddings_create g c m w = (Inr (e # es), w')"
  shows "\<exists>dd' w'. build_document_data g documents w = (None, dd', w')"
proof -
  have "\<exists>dd' w'. process_documents g ds dd w = (None, dd', w')" for ds dd
  proof (induction ds arbitrary: dd w)
    case Nil
    then show ?case by simp
  next
    case (Cons d ds)
    from sp obtain chunks w0 where s: "split_text g (doc_text d) w = (Inr chunks, w0)"
      by blast
    from append_chunks_completes[OF em] obtain dd1 w1 where
      "append_chunks g d 0 chunks dd w0 = (None, dd1, w1)" by blast
    with s have "process_document g d dd w = (None, dd1, w1)"
      by (simp add: process_document_def)
    then show ?case using Cons.IH[of dd1 w1] by simp
  qed
  then show ?thesis by (simp add: build_document_data_def)
qed

subsection \<open>The two example runs\<close>






subsection \<open>Chunks in left-to-right order, with their index and their document's metadata\<close>



end
